theory Spec2Isabelle
  imports Main "HOL-Library.Word"
begin

section \<open>Go runtime and standard-library primitives used by svg.go\<close>

text \<open>
  Go strings are byte sequences; they are modelled as \<open>string\<close> (a list of 8-bit
  characters). Go's \<open>int\<close> and \<open>int64\<close> parameters are modelled as \<open>int\<close>: the
  modelled functions only format them, except \<open>CenterRect\<close>, where the 64-bit
  wrap-around is written out. \<open>uint8\<close> is \<open>8 word\<close>.
\<close>

text \<open>Run-time panics of Go that the modelled code can reach.\<close>

datatype panic =
    IndexOutOfRange int nat       \<comment> \<open>index out of range [i] with length n\<close>
  | SliceBoundsOutOfRange nat nat \<comment> \<open>slice bounds out of range [:hi] with length n\<close>

text \<open>\<open>xs[i]\<close> on a slice of ints: panics unless \<open>0 \<le> i < len(xs)\<close>.\<close>

definition go_index :: "int list \<Rightarrow> int \<Rightarrow> panic + int" where
  "go_index xs i =
     (if 0 \<le> i \<and> i < int (length xs) then Inr (xs ! nat i)
      else Inl (IndexOutOfRange i (length xs)))"

text \<open>\<open>s[lo:hi]\<close> on a string: panics unless \<open>lo \<le> hi \<le> len(s)\<close>.\<close>

definition go_slice :: "string \<Rightarrow> nat \<Rightarrow> nat \<Rightarrow> panic + string" where
  "go_slice s lo hi =
     (if hi \<le> length s \<and> lo \<le> hi then Inr (take (hi - lo) (drop lo s))
      else Inl (SliceBoundsOutOfRange hi (length s)))"

text \<open>\<open>strings.Index(s, substr)\<close>: the index of the first instance of \<open>substr\<close> in
  \<open>s\<close>, or \<open>-1\<close> if \<open>substr\<close> is not present.\<close>

fun Index :: "string \<Rightarrow> string \<Rightarrow> int" where
  "Index [] substr = (if substr = [] then 0 else - 1)"
| "Index (c # cs) substr =
     (if take (length substr) (c # cs) = substr then 0
      else (let r = Index cs substr in if r < 0 then - 1 else r + 1))"

text \<open>\<open>strings.ToUpper\<close>, on the ASCII letters (svg.go applies it to the one-letter
  strings \<open>r\<close>, \<open>g\<close>, \<open>b\<close>, \<open>a\<close> and to the first letter of \<open>red\<close>, \<open>green\<close>,
  \<open>blue\<close>, \<open>alpha\<close> only).\<close>

definition upper_char :: "char \<Rightarrow> char" where
  "upper_char c =
     (let n = (of_char c :: nat) in if 97 \<le> n \<and> n \<le> 122 then char_of (n - 32) else c)"

definition ToUpper :: "string \<Rightarrow> string" where
  "ToUpper s = map upper_char s"

text \<open>The verb \<open>%d\<close> of package fmt on an integer: its decimal digits, with a leading
  minus sign when negative.\<close>

definition digit_char :: "nat \<Rightarrow> char" where
  "digit_char d = ''0123456789'' ! d"

function digits :: "nat \<Rightarrow> string" where
  "digits n = (if n < 10 then [digit_char n] else digits (n div 10) @ [digit_char (n mod 10)])"
  by pat_completeness auto
termination
  by (relation "measure id") auto

declare digits.simps [simp del]

definition Sprintf_d :: "int \<Rightarrow> string" where
  "Sprintf_d n = (if n < 0 then CHR ''-'' # digits (nat (- n)) else digits (nat n))"

text \<open>Reading a string of decimal digits back as a number (used to state what
  \<open>%d\<close> produces).\<close>

definition digit_value :: "char \<Rightarrow> nat" where
  "digit_value c = of_char c - 48"

definition decimal_value :: "string \<Rightarrow> nat" where
  "decimal_value s = foldl (\<lambda>a c. 10 * a + digit_value c) 0 s"

text \<open>The verbs \<open>%g\<close> and \<open>%.2f\<close> and the comparisons on \<open>float64\<close> are not modelled:
  a function over floating-point arguments takes them as a parameter.\<close>

record 'f float64_ops =
  flt :: "'f \<Rightarrow> 'f \<Rightarrow> bool"     \<comment> \<open>\<open>a < b\<close> on float64\<close>
  fconst :: "int \<Rightarrow> 'f"           \<comment> \<open>the float64 value of an integer constant\<close>
  Sprintf_g :: "'f \<Rightarrow> string"     \<comment> \<open>the verb \<open>%g\<close>\<close>
  Sprintf_2f :: "'f \<Rightarrow> string"    \<comment> \<open>the verb \<open>%.2f\<close>\<close>

section \<open>The SVG writer\<close>

text \<open>The struct \<open>SVG\<close> owns the sink; the sink is the text written so far. Write
  errors of the sink are discarded by svg.go and are not modelled.\<close>

record SVG =
  Writer :: string

text \<open>The result of an operation that can panic: the writer after the call, or the
  panic together with the writer as it was when the panic occurred.\<close>

datatype outcome = Done SVG | Panicked panic SVG

definition svgtop :: string where
  \<open>svgtop = ''<?xml version="1.0"?>\<newline><svg''\<close>

definition svgns :: string where
  \<open>svgns = ''\<newline>     xmlns="http://www.w3.org/2000/svg"\<newline>     xmlns:xlink="http://www.w3.org/1999/xlink">''\<close>

definition emptyclose :: string where
  \<open>emptyclose = ''/>\<newline>''\<close>

definition print :: "SVG \<Rightarrow> string \<Rightarrow> SVG" where
  "print svg a = svg\<lparr>Writer := Writer svg @ a\<rparr>"

definition println :: "SVG \<Rightarrow> string \<Rightarrow> SVG" where
  \<open>println svg a = svg\<lparr>Writer := Writer svg @ a @ ''\<newline>''\<rparr>\<close>

text \<open>\<open>printf\<close> is \<open>print\<close> of the formatted string; each call site writes its format
  out as a concatenation.\<close>

fun genattr_loop :: "string list \<Rightarrow> SVG \<Rightarrow> SVG" where
  "genattr_loop [] svg = svg"
| \<open>genattr_loop (v # ns) svg = genattr_loop ns (print svg (''\<newline>     '' @ v))\<close>

definition genattr :: "string list \<Rightarrow> SVG \<Rightarrow> SVG" where
  "genattr ns svg = println (genattr_loop ns svg) svgns"

definition Start :: "int \<Rightarrow> int \<Rightarrow> string list \<Rightarrow> SVG \<Rightarrow> SVG" where
  \<open>Start w h ns svg =
     genattr ns
       (print svg (svgtop @ '' width="'' @ Sprintf_d w @ '''' @ ''" height="'' @ Sprintf_d h @ '''' @ ''"''))\<close>

definition End :: "SVG \<Rightarrow> SVG" where
  \<open>End svg = println svg ''</svg>''\<close>

subsection \<open>Support functions\<close>

definition repeatString :: "int \<Rightarrow> string" where
  "repeatString n = (if n > 0 then Sprintf_d n else ''indefinite'')"

definition style :: "string \<Rightarrow> string" where
  \<open>style s = (if length s > 0 then ''style="'' @ s @ ''"'' else s)\<close>

fun endstyle_loop :: "string list \<Rightarrow> string \<Rightarrow> string" where
  "endstyle_loop [] nv = nv"
| "endstyle_loop (si # s) nv =
     endstyle_loop s
       (if Index si ''='' > 0 then nv @ si @ '' '' else nv @ style si @ '' '')"

definition endstyle :: "string list \<Rightarrow> string \<Rightarrow> string" where
  "endstyle s endtag =
     (if length s > 0 then endstyle_loop s '''' @ endtag else endtag)"

definition pct :: "8 word \<Rightarrow> 8 word" where
  "pct n = (if n > 100 then 100 else n)"

definition coord :: "int \<Rightarrow> int \<Rightarrow> string" where
  "coord x y = Sprintf_d x @ '','' @ Sprintf_d y"


definition dim :: "int \<Rightarrow> int \<Rightarrow> int \<Rightarrow> int \<Rightarrow> string" where
  \<open>dim x y w h =
     ''x="'' @ Sprintf_d x @ ''" y="'' @ Sprintf_d y @ ''" width="'' @ Sprintf_d w @
     ''" height="'' @ Sprintf_d h @ ''"''\<close>

subsection \<open>Shapes\<close>

definition Circle :: "int \<Rightarrow> int \<Rightarrow> int \<Rightarrow> string list \<Rightarrow> SVG \<Rightarrow> SVG" where
  \<open>Circle x y r s svg =
     print svg (''<circle cx="'' @ Sprintf_d x @ ''" cy="'' @ Sprintf_d y @ ''" r="'' @ Sprintf_d r @
       ''" '' @ endstyle s emptyclose)\<close>

text \<open>\<open>Rect\<close> writes its attributes itself, one \<open>printf\<close> per item.\<close>

fun Rect_loop :: "string list \<Rightarrow> SVG \<Rightarrow> SVG" where
  "Rect_loop [] svg = svg"
| \<open>Rect_loop (si # s) svg =
     Rect_loop s
       (if Index si ''='' > 0 then print svg ('' '' @ si)
        else print svg ('' style="'' @ si @ ''"''))\<close>

definition Rect :: "int \<Rightarrow> int \<Rightarrow> int \<Rightarrow> int \<Rightarrow> string list \<Rightarrow> SVG \<Rightarrow> SVG" where
  \<open>Rect x y w h s svg =
     (let svg1 = print svg ''<rect '';
          svg2 = print svg1 (''x="'' @ Sprintf_d x @ ''" y="'' @ Sprintf_d y @ ''" width="'' @
                   Sprintf_d w @ ''" height="'' @ Sprintf_d h @ ''"'');
          svg3 = (if length s > 0 then Rect_loop s svg2 else svg2)
      in print svg3 ('' '' @ emptyclose))\<close>

text \<open>The call that the body of \<open>Rect\<close> replaces; svg.go keeps it as a comment in the
  first line of \<open>Rect\<close>: \<open>svg.printf(`<rect %s %s`, dim(x, y, w, h), endstyle(s, emptyclose))\<close>.\<close>

definition Rect_endstyle :: "int \<Rightarrow> int \<Rightarrow> int \<Rightarrow> int \<Rightarrow> string list \<Rightarrow> SVG \<Rightarrow> SVG" where
  \<open>Rect_endstyle x y w h s svg =
     print svg (''<rect '' @ dim x y w h @ '' '' @ endstyle s emptyclose)\<close>

definition Roundrect :: "int \<Rightarrow> int \<Rightarrow> int \<Rightarrow> int \<Rightarrow> int \<Rightarrow> int \<Rightarrow> string list \<Rightarrow> SVG \<Rightarrow> SVG" where
  \<open>Roundrect x y w h rx ry s svg =
     print svg (''<rect '' @ dim x y w h @ '' rx="'' @ Sprintf_d rx @ ''" ry="'' @ Sprintf_d ry @
       ''" '' @ endstyle s emptyclose)\<close>

definition Square :: "int \<Rightarrow> int \<Rightarrow> int \<Rightarrow> string list \<Rightarrow> SVG \<Rightarrow> SVG" where
  "Square x y l s svg = Rect x y l l s svg"

text \<open>Go's \<open>int\<close> arithmetic in \<open>CenterRect\<close>: division truncates towards zero and the
  subtraction wraps at 64 bits.\<close>

definition go_quot :: "int \<Rightarrow> int \<Rightarrow> int" where
  "go_quot a b = sgn a * sgn b * (\<bar>a\<bar> div \<bar>b\<bar>)"

definition wrap64 :: "int \<Rightarrow> int" where
  "wrap64 i = signed_take_bit 63 i"

definition CenterRect :: "int \<Rightarrow> int \<Rightarrow> int \<Rightarrow> int \<Rightarrow> string list \<Rightarrow> SVG \<Rightarrow> SVG" where
  "CenterRect x y w h s svg =
     Rect (wrap64 (x - go_quot w 2)) (wrap64 (y - go_quot h 2)) w h s svg"

subsection \<open>Polygons and polylines\<close>

function pp_loop :: "int list \<Rightarrow> int list \<Rightarrow> int \<Rightarrow> int \<Rightarrow> SVG \<Rightarrow> outcome" where
  "pp_loop x y i lx svg =
     (if i < lx then
        (case go_index x i of
           Inl p \<Rightarrow> Panicked p svg
         | Inr xi \<Rightarrow>
            (case go_index y i of
               Inl p \<Rightarrow> Panicked p svg
             | Inr yi \<Rightarrow> pp_loop x y (i + 1) lx (print svg (coord xi yi @ '' ''))))
      else Done svg)"
  by pat_completeness auto
termination
  by (relation "measure (\<lambda>(x, y, i, lx, svg). nat (lx - i))") auto

declare pp_loop.simps [simp del]

definition pp :: "int list \<Rightarrow> int list \<Rightarrow> string \<Rightarrow> SVG \<Rightarrow> outcome" where
  "pp x y tag svg =
     (let svg1 = print svg tag in
      if length x \<noteq> length y then Done (print svg1 '' '')
      else
        (let lx = int (length x) - 1 in
         case pp_loop x y 0 lx svg1 of
           Panicked p svg2 \<Rightarrow> Panicked p svg2
         | Done svg2 \<Rightarrow>
            (case go_index x lx of
               Inl p \<Rightarrow> Panicked p svg2
             | Inr xl \<Rightarrow>
                (case go_index y lx of
                   Inl p \<Rightarrow> Panicked p svg2
                 | Inr yl \<Rightarrow> Done (print svg2 (coord xl yl))))))"

definition poly :: "int list \<Rightarrow> int list \<Rightarrow> string \<Rightarrow> string list \<Rightarrow> SVG \<Rightarrow> outcome" where
  \<open>poly x y tag s svg =
     (case pp x y (''<'' @ tag @ '' points="'') svg of
        Panicked p svg1 \<Rightarrow> Panicked p svg1
      | Done svg1 \<Rightarrow> Done (print svg1 (''" '' @ endstyle s ''/>\<newline>'')))\<close>

definition Polygon :: "int list \<Rightarrow> int list \<Rightarrow> string list \<Rightarrow> SVG \<Rightarrow> outcome" where
  "Polygon x y s svg = poly x y ''polygon'' s svg"

definition Polyline :: "int list \<Rightarrow> int list \<Rightarrow> string list \<Rightarrow> SVG \<Rightarrow> outcome" where
  "Polyline x y s svg = poly x y ''polyline'' s svg"

subsection \<open>Filter effects\<close>

record Filterspec =
  In :: string
  In2 :: string
  Result :: string

definition fsattr :: "Filterspec \<Rightarrow> string" where
  \<open>fsattr s =
     (let attrs = '''';
          attrs = (if length (In s) > 0 then attrs @ ''in="'' @ In s @ ''" '' else attrs);
          attrs = (if length (In2 s) > 0 then attrs @ ''in2="'' @ In2 s @ ''" '' else attrs);
          attrs = (if length (Result s) > 0 then attrs @ ''result="'' @ Result s @ ''" '' else attrs)
      in attrs)\<close>

text \<open>In the branches that slice \<open>c[0:1]\<close> the string \<open>c\<close> is one of four literals of
  length at least three, so the slice is in range and is \<open>take 1 c\<close>.\<close>

definition imgchannel :: "string \<Rightarrow> string" where
  "imgchannel c =
     (if c \<in> set [''R'', ''G'', ''B'', ''A''] then c
      else if c \<in> set [''r'', ''g'', ''b'', ''a''] then ToUpper c
      else if c \<in> set [''red'', ''green'', ''blue'', ''alpha''] then ToUpper (take 1 c)
      else if c \<in> set [''Red'', ''Green'', ''Blue'', ''Alpha''] then take 1 c
      else ''R'')"

definition FeBlend :: "Filterspec \<Rightarrow> string \<Rightarrow> string list \<Rightarrow> SVG \<Rightarrow> SVG" where
  \<open>FeBlend fs mode s svg =
     (let mode1 = (if mode \<in> set [''normal'', ''multiply'', ''screen'', ''darken'', ''lighten'']
                   then mode else ''normal'')
      in print svg (''<feBlend '' @ fsattr fs @ '' mode="'' @ mode1 @ ''" '' @ endstyle s emptyclose))\<close>

definition FeDisplacementMap ::
  "'f float64_ops \<Rightarrow> Filterspec \<Rightarrow> 'f \<Rightarrow> string \<Rightarrow> string \<Rightarrow> string list \<Rightarrow> SVG \<Rightarrow> SVG" where
  \<open>FeDisplacementMap ops fs scale xchannel ychannel s svg =
     print svg (''<feDisplacementMap '' @ fsattr fs @ '' scale="'' @ Sprintf_g ops scale @
       ''" xChannelSelector="'' @ imgchannel xchannel @
       ''" yChannelSelector="'' @ ychannel @ ''" '' @ endstyle s emptyclose)\<close>

definition FeFuncLinear :: "'f float64_ops \<Rightarrow> string \<Rightarrow> 'f \<Rightarrow> 'f \<Rightarrow> SVG \<Rightarrow> SVG" where
  \<open>FeFuncLinear ops channel slope intercept svg =
     print svg (''<feFunc'' @ imgchannel channel @ '' type="linear" slope="'' @ Sprintf_g ops slope @
       ''" intercept="'' @ Sprintf_g ops intercept @ ''"'' @ emptyclose)\<close>

definition FeTurbulence ::
  "'f float64_ops \<Rightarrow> Filterspec \<Rightarrow> string \<Rightarrow> 'f \<Rightarrow> 'f \<Rightarrow> int \<Rightarrow> int \<Rightarrow> bool \<Rightarrow> string list \<Rightarrow> SVG
     \<Rightarrow> outcome" where
  \<open>FeTurbulence ops fs ftype bfx bfy octaves seed stitch s svg =
     (let bfx1 = (if flt ops bfx (fconst ops 0) \<or> flt ops (fconst ops 1) bfx
                  then fconst ops 0 else bfx);
          bfy1 = (if flt ops bfy (fconst ops 0) \<or> flt ops (fconst ops 1) bfy
                  then fconst ops 0 else bfy)
      in case go_slice ftype 0 1 of
           Inl p \<Rightarrow> Panicked p svg
         | Inr c \<Rightarrow>
            (let ftype1 = (if c \<in> set [''f'', ''F''] then ''fractalNoise''
                           else if c \<in> set [''t'', ''T''] then ''turbulence''
                           else ''turbulence'');
                 ss = (if stitch then ''stitch'' else ''noStitch'')
             in Done (print svg (''<feTurbulence '' @ fsattr fs @ '' type="'' @ ftype1 @
                  ''" baseFrequency="'' @ Sprintf_2f ops bfx1 @ '' '' @ Sprintf_2f ops bfy1 @
                  ''" numOctaves="'' @ Sprintf_d octaves @ ''" seed="'' @ Sprintf_d seed @
                  ''" stitchTiles="'' @ ss @ ''" '' @ endstyle s emptyclose))))\<close>

subsection \<open>Text\<close>

text \<open>
  Modelled from the spec: \<open>xml.Escape\<close>, which \<open>tt\<close>, \<open>Text\<close>, \<open>Gid\<close> and \<open>Link\<close> call,
  belongs to Go's package encoding/xml and is not among the repository's sources.
  Section 4.1 of the specification names it \<open>escapeText(raw) -> escaped\<close>, the standard
  markup text-escaping. What the specification leaves open follows the behaviour of the
  library: \<open>xml.Escape\<close> is \<open>EscapeText\<close> without the error result, and \<open>EscapeText\<close>
  decodes its argument rune by rune with \<open>utf8.DecodeRune\<close>, writes a reference for
  \<open>"\<close>, \<open>'\<close>, \<open>&\<close>, \<open><\<close>, \<open>>\<close>, tab, newline and carriage return, writes U+FFFD
  for a byte that is not valid UTF-8 and for a rune that is no XML character, and copies
  the bytes of every other rune.
\<close>

text \<open>\<open>utf8.DecodeRune\<close>: the first rune of a byte string and its width in bytes;
  \<open>(RuneError, 0)\<close> for the empty string and \<open>(RuneError, 1)\<close> for an encoding that is
  not valid UTF-8. A rune is a natural number. \<open>first\<close> gives, for a leading byte of a
  multi-byte encoding, the size of the encoding and the range accepted for its second
  byte.\<close>

definition RuneError :: nat where
  "RuneError = 0xFFFD"

definition first :: "nat \<Rightarrow> (nat \<times> nat \<times> nat) option" where
  "first p0 =
     (if 0xC2 \<le> p0 \<and> p0 \<le> 0xDF then Some (2, 0x80, 0xBF)
      else if p0 = 0xE0 then Some (3, 0xA0, 0xBF)
      else if 0xE1 \<le> p0 \<and> p0 \<le> 0xEC then Some (3, 0x80, 0xBF)
      else if p0 = 0xED then Some (3, 0x80, 0x9F)
      else if 0xEE \<le> p0 \<and> p0 \<le> 0xEF then Some (3, 0x80, 0xBF)
      else if p0 = 0xF0 then Some (4, 0x90, 0xBF)
      else if 0xF1 \<le> p0 \<and> p0 \<le> 0xF3 then Some (4, 0x80, 0xBF)
      else if p0 = 0xF4 then Some (4, 0x80, 0x8F)
      else None)"

definition byte :: "string \<Rightarrow> nat \<Rightarrow> nat" where
  "byte p i = of_char (p ! i)"

definition DecodeRune :: "string \<Rightarrow> nat \<times> nat" where
  "DecodeRune p =
     (let n = length p in
      if n < 1 then (RuneError, 0)
      else
        (let p0 = byte p 0 in
         if p0 < 0x80 then (p0, 1)
         else
           (case first p0 of
              None \<Rightarrow> (RuneError, 1)
            | Some (sz, lo, hi) \<Rightarrow>
                if n < sz then (RuneError, 1)
                else
                  (let b1 = byte p 1 in
                   if b1 < lo \<or> hi < b1 then (RuneError, 1)
                   else if sz \<le> 2 then ((p0 mod 0x20) * 0x40 + b1 mod 0x40, 2)
                   else
                     (let b2 = byte p 2 in
                      if b2 < 0x80 \<or> 0xBF < b2 then (RuneError, 1)
                      else if sz \<le> 3 then
                        ((p0 mod 0x10) * 0x1000 + (b1 mod 0x40) * 0x40 + b2 mod 0x40, 3)
                      else
                        (let b3 = byte p 3 in
                         if b3 < 0x80 \<or> 0xBF < b3 then (RuneError, 1)
                         else
                           ((p0 mod 8) * 0x40000 + (b1 mod 0x40) * 0x1000 +
                              (b2 mod 0x40) * 0x40 + b3 mod 0x40, 4)))))))"

text \<open>The characters of XML 1.0, as encoding/xml tests them.\<close>

definition isInCharacterRange :: "nat \<Rightarrow> bool" where
  "isInCharacterRange r =
     (r = 0x09 \<or> r = 0x0A \<or> r = 0x0D \<or>
      (r \<ge> 0x20 \<and> r \<le> 0xD7FF) \<or>
      (r \<ge> 0xE000 \<and> r \<le> 0xFFFD) \<or>
      (r \<ge> 0x10000 \<and> r \<le> 0x10FFFF))"



text \<open>A rune of a non-empty string is at least one byte wide, so the loop of
  \<open>EscapeText\<close> advances.\<close>

lemma first_size: "first p0 = Some (sz, lo, hi) \<Longrightarrow> 2 \<le> sz \<and> sz \<le> 4 \<and> 0x80 \<le> lo \<and> hi \<le> 0xBF"
  by (auto simp: first_def split: if_splits)

lemma DecodeRune_width: "p \<noteq> [] \<Longrightarrow> 1 \<le> snd (DecodeRune p) \<and> snd (DecodeRune p) \<le> length p"
  by (cases "first (byte p 0)")
     (auto simp: DecodeRune_def Let_def Suc_le_eq split: prod.splits dest: first_size)










text \<open>The strings that are valid UTF-8 and hold XML characters only: those in which
  \<open>EscapeText\<close> replaces nothing by U+FFFD.\<close>

function xml_text :: "string \<Rightarrow> bool" where
  "xml_text s =
     (if s = [] then True
      else
        (case DecodeRune s of
           (r, width) \<Rightarrow>
             \<not> (r = RuneError \<and> width = 1) \<and> isInCharacterRange r \<and> xml_text (drop width s)))"
  by pat_completeness auto
termination
proof (relation "measure length")
  show "wf (measure length)" by simp
next
  fix s :: string and r width
  assume "s \<noteq> []" and "(r, width) = DecodeRune s"
  with DecodeRune_width [of s] have "1 \<le> width" by (metis snd_conv)
  with \<open>s \<noteq> []\<close> show "(drop width s, s) \<in> measure length" by simp
qed

declare xml_text.simps [simp del]






section \<open>The attribute composition as the specification words it\<close>

text \<open>
  Section 4.1 of the specification, \<open>composeAttributes(items, closingToken)\<close>: for each
  item, if it contains \<open>=\<close>, append it verbatim; otherwise wrap it as
  \<open>style="<item>"\<close>; the fragments are space-separated and followed by the closing
  token. This definition follows the specification's words and is compared with
  \<open>endstyle\<close> below.
\<close>

definition composeAttributes :: "string list \<Rightarrow> string \<Rightarrow> string" where
  \<open>composeAttributes items closingToken =
     concat (map (\<lambda>item. (if CHR ''='' \<in> set item then item else ''style="'' @ item @ ''"'') @ '' '') items)
       @ closingToken\<close>

section \<open>Properties\<close>

subsection \<open>Decimal formatting\<close>

lemma digit_value_digit_char: "d < 10 \<Longrightarrow> digit_value (digit_char d) = d"
proof -
  assume "d < 10"
  then have "d \<in> {0, 1, 2, 3, 4, 5, 6, 7, 8, 9}" by auto
  then show ?thesis
    by (auto simp: digit_value_def digit_char_def)
qed

lemma decimal_value_snoc:
  "decimal_value (s @ [c]) = 10 * decimal_value s + digit_value c"
  by (simp add: decimal_value_def)

lemma decimal_value_digits: "decimal_value (digits n) = n"
proof (induction n rule: digits.induct)
  case (1 n)
  show ?case
  proof (cases "n < 10")
    case True
    then show ?thesis
      by (simp add: digits.simps [of n] decimal_value_def digit_value_digit_char)
  next
    case False
    with "1" have "decimal_value (digits (n div 10)) = n div 10" by simp
    with False show ?thesis
      by (simp add: digits.simps [of n] decimal_value_snoc digit_value_digit_char)
  qed
qed

subsection \<open>strings.Index on a one-byte separator\<close>

lemma Index_single_ge: "- 1 \<le> Index s [x]"
  by (induction s) (auto simp: Let_def)

lemma Index_single_neg: "Index s [x] < 0 \<longleftrightarrow> x \<notin> set s"
proof (induction s)
  case Nil
  show ?case by simp
next
  case (Cons c cs)
  have "- 1 \<le> Index cs [x]" by (rule Index_single_ge)
  with Cons show ?case by (auto simp: Let_def)
qed

lemma Index_single_pos:
  "0 < Index s [x] \<longleftrightarrow> x \<in> set s \<and> hd s \<noteq> x"
proof (cases s)
  case Nil
  then show ?thesis by simp
next
  case (Cons c cs)
  have ge: "- 1 \<le> Index cs [x]" by (rule Index_single_ge)
  have neg: "Index cs [x] < 0 \<longleftrightarrow> x \<notin> set cs" by (rule Index_single_neg)
  from Cons ge neg show ?thesis by (auto simp: Let_def)
qed

subsection \<open>endstyle\<close>

lemma endstyle_loop_concat:
  "endstyle_loop s nv =
     nv @ concat (map (\<lambda>si. (if 0 < Index si ''='' then si else style si) @ '' '') s)"
  by (induction s arbitrary: nv) auto

text \<open>
  C1 (counterexample). The claim as written fails on two kinds of item: an item whose
  first character is \<open>=\<close> contains \<open>=\<close> but is wrapped by \<open>endstyle\<close>, and the empty
  item contains no \<open>=\<close> but is not wrapped (\<open>style\<close> returns it unchanged).
\<close>

theorem endstyle_differs_from_spec_wording:
  \<open>endstyle [''=x''] ''>'' = ''style="=x" >'' \<and> composeAttributes [''=x''] ''>'' = ''=x >'' \<and>
   endstyle [''''] ''>'' = '' >'' \<and> composeAttributes [''''] ''>'' = ''style="" >''\<close>
  by (simp add: endstyle_def composeAttributes_def style_def)

text \<open>
  C1 (amended). \<open>endstyle\<close> returns the closing token alone for the empty sequence.
  Otherwise, in order, every item that contains \<open>=\<close> and does not begin with it (its
  first \<open>=\<close> is at a positive index) is appended verbatim, the empty item contributes
  nothing, and every other item, one that begins with \<open>=\<close> such as \<open>=a=b\<close> included, is
  wrapped as \<open>style="<item>"\<close>; each fragment is followed by one space and the closing
  token ends the result. Where no item is empty or begins with \<open>=\<close>, this is the
  composition the specification words; \<open>endstyle(["a=1","b"], ">")\<close> is
  \<open>a=1 style="b" >\<close>.
\<close>

theorem endstyle_composition:
  \<open>endstyle [] endtag = endtag \<and>
   endstyle s endtag =
     concat (map (\<lambda>item.
        (if CHR ''='' \<in> set item \<and> hd item \<noteq> CHR ''='' then item
         else if item = [] then []
         else ''style="'' @ item @ ''"'') @ '' '') s) @ endtag \<and>
   ((\<forall>item \<in> set s. item \<noteq> [] \<and> hd item \<noteq> CHR ''='') \<longrightarrow>
      endstyle s endtag = composeAttributes s endtag) \<and>
   endstyle [''a=1'', ''b''] ''>'' = ''a=1 style="b" >'' \<and>
   endstyle [''=a=b''] ''>'' = ''style="=a=b" >''\<close>
proof -
  have frag: \<open>(\<lambda>si. (if 0 < Index si ''='' then si else style si) @ '' '') =
      (\<lambda>item. (if CHR ''='' \<in> set item \<and> hd item \<noteq> CHR ''='' then item
         else if item = [] then []
         else ''style="'' @ item @ ''"'') @ '' '')\<close>
    by (rule ext) (simp add: Index_single_pos style_def)
  have full: \<open>endstyle s endtag =
     concat (map (\<lambda>item.
        (if CHR ''='' \<in> set item \<and> hd item \<noteq> CHR ''='' then item
         else if item = [] then []
         else ''style="'' @ item @ ''"'') @ '' '') s) @ endtag\<close>
    unfolding endstyle_def endstyle_loop_concat frag by simp
  have agree: "endstyle s endtag = composeAttributes s endtag"
    if "\<forall>item \<in> set s. item \<noteq> [] \<and> hd item \<noteq> CHR ''=''"
  proof -
    have \<open>map (\<lambda>item.
        (if CHR ''='' \<in> set item \<and> hd item \<noteq> CHR ''='' then item
         else if item = [] then []
         else ''style="'' @ item @ ''"'') @ '' '') s =
      map (\<lambda>item. (if CHR ''='' \<in> set item then item else ''style="'' @ item @ ''"'') @ '' '') s\<close>
      using that by (intro map_cong) auto
    then have \<open>concat (map (\<lambda>item.
        (if CHR ''='' \<in> set item \<and> hd item \<noteq> CHR ''='' then item
         else if item = [] then []
         else ''style="'' @ item @ ''"'') @ '' '') s) =
      concat (map (\<lambda>item. (if CHR ''='' \<in> set item then item else ''style="'' @ item @ ''"'') @ '' '') s)\<close>
      by (rule arg_cong)
    then show ?thesis
      unfolding full composeAttributes_def by (rule arg_cong)
  qed
  have ex: \<open>endstyle [''a=1'', ''b''] ''>'' = ''a=1 style="b" >''\<close>
    by (simp add: endstyle_def style_def)
  have emp: "endstyle [] endtag = endtag"
    by (simp add: endstyle_def)
  have ex2: \<open>endstyle [''=a=b''] ''>'' = ''style="=a=b" >''\<close>
    by (simp add: endstyle_def style_def)
  from emp full agree ex ex2 show ?thesis by blast
qed

theorem endstyle_composition_witness:
  \<open>endstyle [''fill:red'', ''id="k"''] ''/>'' = composeAttributes [''fill:red'', ''id="k"''] ''/>'' \<and>
   endstyle [''fill:red'', ''id="k"''] ''/>'' = ''style="fill:red" id="k" />''\<close>
proof -
  have h: \<open>\<forall>item \<in> set [''fill:red'', ''id="k"'']. item \<noteq> [] \<and> hd item \<noteq> CHR ''=''\<close>
    by simp
  have c: \<open>composeAttributes [''fill:red'', ''id="k"''] ''/>'' = ''style="fill:red" id="k" />''\<close>
    by (simp add: composeAttributes_def)
  from endstyle_composition [of \<open>''/>''\<close> \<open>[''fill:red'', ''id="k"'']\<close>] h
  have \<open>endstyle [''fill:red'', ''id="k"''] ''/>'' = composeAttributes [''fill:red'', ''id="k"''] ''/>''\<close>
    by blast
  with c show ?thesis by simp
qed

subsection \<open>pct\<close>

text \<open>
  C6. \<open>pct\<close> saturates every input above 100 to 100 and returns every input of at
  most 100 unchanged (there is no lower clamp); \<open>pct(150) = 100\<close>, \<open>pct(0) = 0\<close>,
  \<open>pct(255) = 100\<close>.
\<close>

theorem pct_saturates:
  "(100 < n \<longrightarrow> pct n = 100) \<and> (n \<le> 100 \<longrightarrow> pct n = n) \<and>
   pct 150 = 100 \<and> pct 0 = 0 \<and> pct 255 = 100"
  by (auto simp: pct_def)

theorem pct_saturates_witness:
  "(100 :: 8 word) < 200 \<and> pct 200 = 100 \<and> (37 :: 8 word) \<le> 100 \<and> pct 37 = 37"
  using pct_saturates [of 200] pct_saturates [of 37] by simp

subsection \<open>repeatString\<close>

text \<open>
  C7. \<open>repeatString\<close> maps every \<open>n \<le> 0\<close> to the token \<open>indefinite\<close> and every
  \<open>n > 0\<close> to its decimal string (a string of decimal digits whose value is \<open>n\<close>);
  \<open>repeatString(0)\<close> and \<open>repeatString(-5)\<close> are \<open>indefinite\<close>, \<open>repeatString(3)\<close> is \<open>3\<close>.
\<close>

theorem repeatString_cases:
  "(n \<le> 0 \<longrightarrow> repeatString n = ''indefinite'') \<and>
   (0 < n \<longrightarrow> repeatString n = Sprintf_d n \<and> repeatString n = digits (nat n) \<and>
      int (decimal_value (repeatString n)) = n) \<and>
   repeatString 0 = ''indefinite'' \<and> repeatString (- 5) = ''indefinite'' \<and>
   repeatString 3 = ''3''"
proof -
  have "repeatString 3 = ''3''"
    by (simp add: repeatString_def Sprintf_d_def digits.simps digit_char_def)
  then show ?thesis
    by (simp add: repeatString_def Sprintf_d_def decimal_value_digits)
qed

theorem repeatString_cases_witness:
  "(- 7 :: int) \<le> 0 \<and> repeatString (- 7) = ''indefinite'' \<and>
   (0 :: int) < 42 \<and> repeatString 42 = ''42'' \<and> decimal_value ''42'' = 42"
proof -
  have d: "Sprintf_d 42 = ''42''" by code_simp
  from repeatString_cases [of "- 7"] repeatString_cases [of 42] d show ?thesis
    by (simp add: decimal_value_def digit_value_def)
qed

subsection \<open>The canonical document\<close>

text \<open>
  C2. \<open>Start(100, 100)\<close>, then \<open>Circle(50, 50, 40)\<close>, then \<open>End()\<close> append to the sink
  exactly the fixed document: the XML declaration, the \<open>svg\<close> root tag with
  \<open>width="100"\<close>, \<open>height="100"\<close> and the two namespace declarations, one self-closing
  \<open>circle\<close> element with \<open>cx="50" cy="50" r="40"\<close>, and the closing \<open></svg>\<close> tag.
\<close>

theorem Start_Circle_End_document:
  \<open>Writer (End (Circle 50 50 40 [] (Start 100 100 [] svg))) =
     Writer svg @
     ''<?xml version="1.0"?>\<newline><svg width="100" height="100"\<newline>     xmlns="http://www.w3.org/2000/svg"\<newline>     xmlns:xlink="http://www.w3.org/1999/xlink">\<newline><circle cx="50" cy="50" r="40" />\<newline></svg>\<newline>''\<close>
proof -
  have d: "Sprintf_d 100 = ''100''" "Sprintf_d 50 = ''50''" "Sprintf_d 40 = ''40''"
    by code_simp+
  show ?thesis
    by (simp add: End_def Circle_def Start_def genattr_def println_def print_def d
        endstyle_def emptyclose_def svgtop_def svgns_def)
qed

subsection \<open>Polygons\<close>

text \<open>
  C5. For coordinate arrays of different lengths, \<open>Polygon\<close> and \<open>Polyline\<close> do not
  panic: they write the element with a points list that holds no coordinate pair (one
  space), followed by the composed attributes.
\<close>

theorem poly_mismatched_lengths:
  \<open>length x \<noteq> length y \<Longrightarrow>
     Polygon x y s svg =
       Done (svg\<lparr>Writer := Writer svg @ ''<polygon points=" " '' @ endstyle s ''/>\<newline>''\<rparr>) \<and>
     Polyline x y s svg =
       Done (svg\<lparr>Writer := Writer svg @ ''<polyline points=" " '' @ endstyle s ''/>\<newline>''\<rparr>)\<close>
  by (simp add: Polygon_def Polyline_def poly_def pp_def print_def)

theorem poly_mismatched_lengths_witness:
  \<open>Polygon [1, 2, 3] [4, 5] [''fill:none''] \<lparr>Writer = ''''\<rparr> =
     Done \<lparr>Writer = ''<polygon points=" " style="fill:none" />\<newline>''\<rparr> \<and>
   Polyline [] [7] [] \<lparr>Writer = ''''\<rparr> = Done \<lparr>Writer = ''<polyline points=" " />\<newline>''\<rparr>\<close>
  using poly_mismatched_lengths [of "[1, 2, 3]" "[4, 5]" \<open>[''fill:none'']\<close> \<open>\<lparr>Writer = ''''\<rparr>\<close>]
    poly_mismatched_lengths [of "[]" "[7]" "[]" \<open>\<lparr>Writer = ''''\<rparr>\<close>]
  by (simp add: endstyle_def style_def)

text \<open>
  C9. When both coordinate arrays are empty, \<open>pp\<close> passes the equal-length check, its
  loop does not run, and \<open>x[len(x)-1]\<close> is \<open>x[-1]\<close>: \<open>Polygon\<close> and \<open>Polyline\<close>
  panic with an index out of range after the opening of the element has been written.
\<close>

theorem poly_empty_panics:
  \<open>Polygon [] [] s svg =
     Panicked (IndexOutOfRange (- 1) 0) (svg\<lparr>Writer := Writer svg @ ''<polygon points="''\<rparr>) \<and>
   Polyline [] [] s svg =
     Panicked (IndexOutOfRange (- 1) 0) (svg\<lparr>Writer := Writer svg @ ''<polyline points="''\<rparr>)\<close>
  by (simp add: Polygon_def Polyline_def poly_def pp_def print_def pp_loop.simps go_index_def)

text \<open>With equal lengths and at least one point, no index is out of range.\<close>

lemma pp_loop_in_range:
  "length x = length y \<Longrightarrow> 0 \<le> i \<Longrightarrow> lx < int (length x) \<Longrightarrow>
     \<exists>svg'. pp_loop x y i lx svg = Done svg'"
proof (induction x y i lx svg rule: pp_loop.induct)
  case (1 x y i lx svg)
  show ?case
  proof (cases "i < lx")
    case False
    then show ?thesis by (simp add: pp_loop.simps [of x y i lx svg])
  next
    case True
    with "1.prems" have gx: "go_index x i = Inr (x ! nat i)" and gy: "go_index y i = Inr (y ! nat i)"
      by (simp_all add: go_index_def)
    from "1.IH" [OF True gx gy] "1.prems"
    have "\<exists>svg'. pp_loop x y (i + 1) lx (print svg (coord (x ! nat i) (y ! nat i) @ '' '')) = Done svg'"
      by simp
    with True gx gy show ?thesis
      by (simp add: pp_loop.simps [of x y i lx svg])
  qed
qed

lemma poly_nonempty_done:
  assumes "length x = length y" and "x \<noteq> []"
  shows "\<exists>svg'. Polygon x y s svg = Done svg'" and "\<exists>svg'. Polyline x y s svg = Done svg'"
proof -
  have lx: "int (length x) - 1 < int (length x)" "0 \<le> int (length x) - 1"
    using assms(2) by (simp_all add: Suc_leI)
  have g: "go_index x (int (length x) - 1) = Inr (x ! nat (int (length x) - 1))"
    "go_index y (int (length x) - 1) = Inr (y ! nat (int (length x) - 1))"
    using lx assms(1) by (simp_all add: go_index_def)
  have run: "\<exists>svg'. pp x y tag svg = Done svg'" for tag
  proof -
    from pp_loop_in_range [OF assms(1) _ lx(1), of 0 "print svg tag"]
    obtain svg2 where "pp_loop x y 0 (int (length x) - 1) (print svg tag) = Done svg2"
      by auto
    with g assms(1) show ?thesis by (simp add: pp_def Let_def)
  qed
  from run [of \<open>''<polygon points="''\<close>] show "\<exists>svg'. Polygon x y s svg = Done svg'"
    by (auto simp: Polygon_def poly_def)
  from run [of \<open>''<polyline points="''\<close>] show "\<exists>svg'. Polyline x y s svg = Done svg'"
    by (auto simp: Polyline_def poly_def)
qed

subsection \<open>Enumerated parameters\<close>

text \<open>
  C3 (the code at the failing input). \<open>FeTurbulence\<close> slices \<open>ftype[0:1]\<close> before it
  looks at the value, so the empty string as turbulence type is not coerced to a
  default: the call panics with slice bounds out of range and writes nothing.
\<close>

theorem FeTurbulence_empty_type_panics:
  "FeTurbulence ops fs '''' bfx bfy octaves seed stitch s svg =
     Panicked (SliceBoundsOutOfRange 1 0) svg"
  by (simp add: FeTurbulence_def go_slice_def)

text \<open>Every other turbulence type is accepted, and an unrecognised one is treated as
  \<open>turbulence\<close>; an unrecognised blend mode is treated as \<open>normal\<close>.\<close>

lemma FeTurbulence_nonempty_type:
  assumes "ftype \<noteq> []"
  shows "\<exists>svg'. FeTurbulence ops fs ftype bfx bfy octaves seed stitch s svg = Done svg'"
proof -
  from assms have "go_slice ftype 0 1 = Inr (take 1 ftype)"
    by (cases ftype) (simp_all add: go_slice_def)
  then show ?thesis
    by (simp add: FeTurbulence_def Let_def)
qed

lemma FeTurbulence_type_default:
  assumes "ftype \<noteq> []" and "hd ftype \<notin> {CHR ''f'', CHR ''F''}"
  shows "FeTurbulence ops fs ftype bfx bfy octaves seed stitch s svg =
         FeTurbulence ops fs ''turbulence'' bfx bfy octaves seed stitch s svg"
proof -
  from assms obtain c cs where c: "ftype = c # cs" "c \<noteq> CHR ''f''" "c \<noteq> CHR ''F''"
    by (cases ftype) auto
  then have sl: "go_slice ftype 0 1 = Inr [c]" by (simp add: go_slice_def)
  have sl': "go_slice ''turbulence'' 0 1 = Inr ''t''" by (simp add: go_slice_def)
  show ?thesis
    unfolding FeTurbulence_def Let_def sl sl' using c(2,3) by simp
qed

lemma FeBlend_mode_default:
  assumes "mode \<notin> set [''normal'', ''multiply'', ''screen'', ''darken'', ''lighten'']"
  shows "FeBlend fs mode s svg = FeBlend fs ''normal'' s svg"
  unfolding FeBlend_def Let_def using assms by (simp only: if_False) simp

subsection \<open>Channel letters\<close>

lemma imgchannel_aliases:
  "imgchannel ''red'' = ''R''" "imgchannel ''R'' = ''R''" "imgchannel ''r'' = ''R''" "imgchannel ''Red'' = ''R''"
  "imgchannel ''green'' = ''G''" "imgchannel ''G'' = ''G''" "imgchannel ''g'' = ''G''" "imgchannel ''Green'' = ''G''"
  "imgchannel ''blue'' = ''B''" "imgchannel ''B'' = ''B''" "imgchannel ''b'' = ''B''" "imgchannel ''Blue'' = ''B''"
  "imgchannel ''alpha'' = ''A''" "imgchannel ''A'' = ''A''" "imgchannel ''a'' = ''A''" "imgchannel ''Alpha'' = ''A''"
  by code_simp+

lemma imgchannel_default:
  "c \<notin> set [''R'', ''G'', ''B'', ''A'', ''r'', ''g'', ''b'', ''a'', ''red'', ''green'', ''blue'', ''alpha'',
      ''Red'', ''Green'', ''Blue'', ''Alpha''] \<Longrightarrow> imgchannel c = ''R''"
  by (simp add: imgchannel_def)

lemma ToUpper_letters:
  "ToUpper ''r'' = ''R''" "ToUpper ''g'' = ''G''" "ToUpper ''b'' = ''B''" "ToUpper ''a'' = ''A''"
  by code_simp+

lemma imgchannel_canonical: "imgchannel c \<in> set [''R'', ''G'', ''B'', ''A'']"
proof -
  have lower: "ToUpper c \<in> set [''R'', ''G'', ''B'', ''A'']" if "c \<in> set [''r'', ''g'', ''b'', ''a'']"
  proof -
    from that have "c = ''r'' \<or> c = ''g'' \<or> c = ''b'' \<or> c = ''a''" by simp
    then show ?thesis by (elim disjE) (simp_all add: ToUpper_letters)
  qed
  have name: "ToUpper (take 1 c) \<in> set [''R'', ''G'', ''B'', ''A'']"
    if "c \<in> set [''red'', ''green'', ''blue'', ''alpha'']"
  proof -
    from that have "c = ''red'' \<or> c = ''green'' \<or> c = ''blue'' \<or> c = ''alpha''" by simp
    then show ?thesis by (elim disjE) (simp_all add: ToUpper_letters)
  qed
  have Name: "take 1 c \<in> set [''R'', ''G'', ''B'', ''A'']"
    if "c \<in> set [''Red'', ''Green'', ''Blue'', ''Alpha'']"
  proof -
    from that have "c = ''Red'' \<or> c = ''Green'' \<or> c = ''Blue'' \<or> c = ''Alpha''" by simp
    then show ?thesis by (elim disjE) simp_all
  qed
  have R: "''R'' \<in> set [''R'', ''G'', ''B'', ''A'']" by simp
  show ?thesis
  proof (cases "c \<in> set [''R'', ''G'', ''B'', ''A'']")
    case True
    then show ?thesis unfolding imgchannel_def by (simp only: if_True)
  next
    case upper: False
    show ?thesis
    proof (cases "c \<in> set [''r'', ''g'', ''b'', ''a'']")
      case True
      with upper lower show ?thesis unfolding imgchannel_def by (simp only: if_True if_False)
    next
      case low: False
      show ?thesis
      proof (cases "c \<in> set [''red'', ''green'', ''blue'', ''alpha'']")
        case True
        with upper low name show ?thesis unfolding imgchannel_def by (simp only: if_True if_False)
      next
        case nm: False
        show ?thesis
        proof (cases "c \<in> set [''Red'', ''Green'', ''Blue'', ''Alpha'']")
          case True
          with upper low nm Name show ?thesis
            unfolding imgchannel_def by (simp only: if_True if_False)
        next
          case False
          with upper low nm R show ?thesis
            unfolding imgchannel_def by (simp only: if_True if_False)
        qed
      qed
    qed
  qed
qed

lemma imgchannel_idem: "imgchannel (imgchannel c) = imgchannel c"
proof -
  from imgchannel_canonical [of c]
  have "imgchannel c = ''R'' \<or> imgchannel c = ''G'' \<or> imgchannel c = ''B'' \<or> imgchannel c = ''A''"
    by simp
  then show ?thesis
    by (elim disjE) (simp_all only: imgchannel_aliases)
qed

text \<open>The elements written by \<open>FeFuncLinear\<close> and, for its x selector, by
  \<open>FeDisplacementMap\<close> depend on the channel argument through \<open>imgchannel\<close> only.\<close>

lemma FeFuncLinear_channel:
  "FeFuncLinear ops channel slope intercept svg =
   FeFuncLinear ops (imgchannel channel) slope intercept svg"
  by (simp add: FeFuncLinear_def imgchannel_idem)

lemma FeDisplacementMap_xchannel:
  "FeDisplacementMap ops fs scale xchannel ychannel s svg =
   FeDisplacementMap ops fs scale (imgchannel xchannel) ychannel s svg"
  by (simp add: FeDisplacementMap_def imgchannel_idem)

text \<open>
  C4 (the code at the failing input). \<open>FeDisplacementMap\<close> passes \<open>xchannel\<close> through
  \<open>imgchannel\<close> but writes \<open>ychannel\<close> as it is: with the unrecognised value \<open>bogus\<close>
  for both, the x selector is the default \<open>R\<close> and the y selector is \<open>bogus\<close>.
\<close>

theorem FeDisplacementMap_ychannel_verbatim:
  \<open>Writer (FeDisplacementMap ops fs scale ''bogus'' ''bogus'' [] svg) =
     Writer svg @ ''<feDisplacementMap '' @ fsattr fs @ '' scale="'' @ Sprintf_g ops scale @
       ''" xChannelSelector="R" yChannelSelector="bogus" />\<newline>''\<close>
  by (simp add: FeDisplacementMap_def print_def imgchannel_def endstyle_def emptyclose_def)

subsection \<open>Rect\<close>

text \<open>Where no item is the empty string, \<open>Rect\<close> writes exactly what the call through
  \<open>endstyle\<close> writes.\<close>

lemma Rect_loop_writes:
  \<open>Rect_loop s svg =
     svg\<lparr>Writer := Writer svg @
       concat (map (\<lambda>si. '' '' @ (if 0 < Index si ''='' then si else ''style="'' @ si @ ''"'')) s)\<rparr>\<close>
  by (induction s arbitrary: svg) (simp_all add: print_def)

lemma fragments_shift:
  \<open>concat (map (\<lambda>si. '' '' @ f si) s) @ '' '' = '' '' @ concat (map (\<lambda>si. f si @ '' '') s)\<close>
  by (induction s) simp_all

lemma Rect_eq_Rect_endstyle:
  assumes "[] \<notin> set s"
  shows "Rect x y w h s svg = Rect_endstyle x y w h s svg"
proof -
  have \<open>map (\<lambda>si. '' '' @ (if 0 < Index si ''='' then si else ''style="'' @ si @ ''"'')) s =
        map (\<lambda>si. '' '' @ (if 0 < Index si ''='' then si else style si)) s\<close>
    using assms by (intro map_cong) (auto simp: style_def)
  then have \<open>concat (map (\<lambda>si. '' '' @ (if 0 < Index si ''='' then si else ''style="'' @ si @ ''"'')) s) =
        concat (map (\<lambda>si. '' '' @ (if 0 < Index si ''='' then si else style si)) s)\<close>
    by (rule arg_cong)
  then have \<open>concat (map (\<lambda>si. '' '' @ (if 0 < Index si ''='' then si else ''style="'' @ si @ ''"'')) s) @ '' '' =
        '' '' @ concat (map (\<lambda>si. (if 0 < Index si ''='' then si else style si) @ '' '') s)\<close>
    by (simp only: fragments_shift [of "\<lambda>si. if 0 < Index si ''='' then si else style si" s])
  then show ?thesis
    by (simp add: Rect_def Rect_endstyle_def Rect_loop_writes endstyle_def endstyle_loop_concat
        print_def dim_def Let_def)
qed

text \<open>
  C10 (the code at the failing input). For the empty-string item \<open>Rect\<close> writes
  \<open>style=""\<close>, and so do \<open>Square\<close> and \<open>CenterRect\<close>, where \<open>endstyle\<close> (in the call
  that \<open>Rect\<close> replaces, and in \<open>Roundrect\<close>) writes no attribute at all.
\<close>

theorem Rect_empty_item_differs:
  \<open>Writer (Rect 0 0 1 1 [''''] \<lparr>Writer = ''''\<rparr>) =
     ''<rect x="0" y="0" width="1" height="1" style="" />\<newline>'' \<and>
   Writer (Rect_endstyle 0 0 1 1 [''''] \<lparr>Writer = ''''\<rparr>) =
     ''<rect x="0" y="0" width="1" height="1"  />\<newline>'' \<and>
   Writer (Roundrect 0 0 1 1 0 0 [''''] \<lparr>Writer = ''''\<rparr>) =
     ''<rect x="0" y="0" width="1" height="1" rx="0" ry="0"  />\<newline>'' \<and>
   endstyle [''''] emptyclose = '' />\<newline>'' \<and>
   Writer (Square 0 0 1 [''''] \<lparr>Writer = ''''\<rparr>) =
     ''<rect x="0" y="0" width="1" height="1" style="" />\<newline>'' \<and>
   Writer (CenterRect 0 0 1 1 [''''] \<lparr>Writer = ''''\<rparr>) =
     ''<rect x="0" y="0" width="1" height="1" style="" />\<newline>''\<close>
proof -
  have d: "Sprintf_d 0 = ''0''" "Sprintf_d 1 = ''1''"
    by code_simp+
  have c: "wrap64 (- go_quot 1 2) = 0"
    by (simp add: wrap64_def go_quot_def)
  show ?thesis
    by (simp add: Rect_def Rect_endstyle_def Roundrect_def Square_def CenterRect_def c dim_def
        print_def d endstyle_def style_def emptyclose_def)
qed

subsection \<open>Text escaping\<close>









lemma DecodeRune_asciiI:
  "s \<noteq> [] \<Longrightarrow> byte s 0 < 0x80 \<Longrightarrow> DecodeRune s = (byte s 0, 1)"
  by (cases s) (simp_all add: DecodeRune_def Let_def)













lemma xml_text_Nil: "xml_text []"
  by (subst xml_text.simps) simp

lemma xml_text_step:
  "s \<noteq> [] \<Longrightarrow> DecodeRune s = (r, w) \<Longrightarrow>
     xml_text s \<longleftrightarrow> \<not> (r = RuneError \<and> w = 1) \<and> isInCharacterRange r \<and> xml_text (drop w s)"
  by (subst xml_text.simps) simp















lemma xml_text_ascii:
  assumes "\<forall>b \<in> set s. (of_char b :: nat) < 0x80 \<and>
     (0x20 \<le> (of_char b :: nat) \<or> b = CHR 0x09 \<or> b = CHR 0x0A \<or> b = CHR 0x0D)"
  shows "xml_text s"
  using assms
proof (induction s)
  case Nil
  show ?case by (rule xml_text_Nil)
next
  case (Cons c cs)
  then have c: "(of_char c :: nat) < 0x80"
    "0x20 \<le> (of_char c :: nat) \<or> c = CHR 0x09 \<or> c = CHR 0x0A \<or> c = CHR 0x0D"
    by simp_all
  from c(1) DecodeRune_asciiI [of "c # cs"] have d: "DecodeRune (c # cs) = (of_char c, 1)"
    by (simp add: byte_def)
  from c have "isInCharacterRange (of_char c)" "(of_char c :: nat) \<noteq> RuneError"
    by (auto simp: isInCharacterRange_def RuneError_def)
  moreover from Cons have "xml_text cs" by simp
  ultimately show ?case
    using xml_text_step [OF _ d] by simp
qed




end
